theory Spec2Isabelle
  imports
    Complex_Main
    "HOL-Library.Multiset"
    "HOL-Library.Char_ord"
    "HOL-Library.List_Lexorder"
    "HOL-Library.Product_Lexorder"
begin

section \<open>JavaScript values read by the pages\<close>

text \<open>
  A JavaScript number is a finite double, one of the two infinities, or NaN. \<open>Fin r\<close> is
  the finite double whose value is the real number \<open>r\<close>; the two zeros are one value.
  Arithmetic on doubles rounds and overflows, so the sum of two finite doubles is not
  their real sum: it is the host's, a parameter of the model (see \<open>host\<close> below).
\<close>

datatype jsnum = Fin real | PosInf | NegInf | NaN

text \<open>
  The primitive values a JSON payload, an input field or a piece of React state can
  hold. \<open>JUndefined\<close> is an absent property.
\<close>

datatype jsval = JUndefined | JNull | JBool bool | JNum jsnum | JStr string

datatype jstype = TUndefined | TObject | TBoolean | TNumber | TString

fun typeof :: "jsval \<Rightarrow> jstype" where
  "typeof JUndefined = TUndefined"
| "typeof JNull = TObject"
| "typeof (JBool b) = TBoolean"
| "typeof (JNum n) = TNumber"
| "typeof (JStr s) = TString"

text \<open>The operator \<^verbatim>\<open>a ?? b\<close>: \<open>b\<close> when \<open>a\<close> is null or undefined.\<close>

definition nullish :: "jsval \<Rightarrow> jsval \<Rightarrow> jsval" where
  "nullish a b = (if a = JUndefined \<or> a = JNull then b else a)"

text \<open>
  What the pages take from the JavaScript host. \<open>stringToNumber\<close> is the StringToNumber
  grammar that \<^verbatim>\<open>Number\<close> applies to a string (decimal, hexadecimal, exponent and
  Infinity literals, surrounding white space). \<open>addDoubles a b\<close> is the sum of the finite
  doubles \<open>a\<close> and \<open>b\<close> as the host computes it: the real sum rounded to a double, or
  an infinity when it overflows. Both are parameters of every definition that uses them,
  so each theorem holds for whatever the host computes.
\<close>

record host =
  stringToNumber :: "string \<Rightarrow> jsnum"
  addDoubles :: "real \<Rightarrow> real \<Rightarrow> jsnum"

fun jsneg :: "jsnum \<Rightarrow> jsnum" where
  "jsneg (Fin a) = Fin (- a)"
| "jsneg PosInf = NegInf"
| "jsneg NegInf = PosInf"
| "jsneg NaN = NaN"

text \<open>
  Number addition: two finite doubles are added by the host; NaN is absorbing, and
  opposite infinities add up to NaN.
\<close>

fun jsadd :: "(real \<Rightarrow> real \<Rightarrow> jsnum) \<Rightarrow> jsnum \<Rightarrow> jsnum \<Rightarrow> jsnum" where
  "jsadd add (Fin a) (Fin b) = add a b"
| "jsadd add (Fin a) PosInf = PosInf"
| "jsadd add (Fin a) NegInf = NegInf"
| "jsadd add PosInf (Fin b) = PosInf"
| "jsadd add PosInf PosInf = PosInf"
| "jsadd add PosInf NegInf = NaN"
| "jsadd add NegInf (Fin b) = NegInf"
| "jsadd add NegInf NegInf = NegInf"
| "jsadd add NegInf PosInf = NaN"
| "jsadd add NaN b = NaN"
| "jsadd add a NaN = NaN"

text \<open>Number subtraction: the difference is the sum with the negated number.\<close>

definition jssub :: "(real \<Rightarrow> real \<Rightarrow> jsnum) \<Rightarrow> jsnum \<Rightarrow> jsnum \<Rightarrow> jsnum" where
  "jssub add a b = jsadd add a (jsneg b)"

text \<open>\<^verbatim>\<open>Number(v)\<close>; a string is converted by the host's StringToNumber.\<close>

fun Number :: "(string \<Rightarrow> jsnum) \<Rightarrow> jsval \<Rightarrow> jsnum" where
  "Number str2num JUndefined = NaN"
| "Number str2num JNull = Fin 0"
| "Number str2num (JBool b) = Fin (if b then 1 else 0)"
| "Number str2num (JNum n) = n"
| "Number str2num (JStr s) = str2num s"

text \<open>\<^verbatim>\<open>n || 0\<close> on a number: NaN and zero are falsy.\<close>

definition or_zero :: "jsnum \<Rightarrow> jsnum" where
  "or_zero n = (if n = NaN \<or> n = Fin 0 then Fin 0 else n)"

text \<open>\<^verbatim>\<open>a - b\<close>: both operands go through ToNumber.\<close>

definition js_minus :: "host \<Rightarrow> jsval \<Rightarrow> jsval \<Rightarrow> jsval" where
  "js_minus js a b =
     JNum (jssub (addDoubles js) (Number (stringToNumber js) a) (Number (stringToNumber js) b))"


section \<open>DashboardPage: the derived figures\<close>

text \<open>
  One entry of \<^verbatim>\<open>summary.fixedExpenseCategoryTotals\<close>. The derivations read its
  \<^verbatim>\<open>category\<close> and \<^verbatim>\<open>total\<close>; the colour only feeds the chart.
\<close>

record category_total =
  category :: string
  total :: jsval

text \<open>
  The fields of the summary payload that the derivations read. The payload's
  \<^verbatim>\<open>activeMonthlyNetIncome\<close> field is \<open>activeMonthlyNetIncome_field\<close>, since the page
  binds the resolved income to a constant of the same name.
\<close>

record summary =
  fixedExpenseCategoryTotals :: "category_total list option"
  effectiveFixedExpenseTotal :: jsval
  fixedExpenseTotal :: jsval
  fixedExpensesTotal :: jsval
  activeMonthlyNetIncome_field :: jsval
  monthlyNetIncome :: jsval
  freeAfterFixed :: jsval

text \<open>\<^verbatim>\<open>summary.fixedExpenseCategoryTotals || []\<close>\<close>

definition fixedCategories :: "summary \<Rightarrow> category_total list" where
  "fixedCategories s = (case fixedExpenseCategoryTotals s of None \<Rightarrow> [] | Some cs \<Rightarrow> cs)"

text \<open>\<^verbatim>\<open>new Set(hiddenCategories)\<close>\<close>

definition hiddenCategorySet :: "string list \<Rightarrow> string set" where
  "hiddenCategorySet hiddenCategories = set hiddenCategories"

definition visibleCategoryTotals :: "summary \<Rightarrow> string list \<Rightarrow> category_total list" where
  "visibleCategoryTotals s hiddenCategories =
     filter (\<lambda>item. category item \<notin> hiddenCategorySet hiddenCategories) (fixedCategories s)"

definition defaultFixedTotal :: "summary \<Rightarrow> jsval" where
  "defaultFixedTotal s =
     nullish (effectiveFixedExpenseTotal s)
       (nullish (fixedExpenseTotal s) (nullish (fixedExpensesTotal s) (JNum (Fin 0))))"

text \<open>
  \<^verbatim>\<open>items.reduce((sum, item) => sum + (Number(item.total) || 0), 0)\<close>: a left fold
  from zero.
\<close>

definition sumTotals :: "host \<Rightarrow> category_total list \<Rightarrow> jsnum" where
  "sumTotals js items =
     foldl (\<lambda>sum item.
              jsadd (addDoubles js) sum (or_zero (Number (stringToNumber js) (total item))))
       (Fin 0) items"

definition visibleFixedTotal :: "host \<Rightarrow> summary \<Rightarrow> string list \<Rightarrow> jsval" where
  "visibleFixedTotal js s hiddenCategories =
     (if length (fixedCategories s) = 0 then defaultFixedTotal s
      else JNum (sumTotals js (visibleCategoryTotals s hiddenCategories)))"

definition activeMonthlyNetIncome :: "summary \<Rightarrow> jsval" where
  "activeMonthlyNetIncome s =
     (if typeof (activeMonthlyNetIncome_field s) = TNumber then activeMonthlyNetIncome_field s
      else if typeof (monthlyNetIncome s) = TNumber then monthlyNetIncome s
      else JNull)"

definition visibleFreeAfterFixed :: "host \<Rightarrow> summary \<Rightarrow> string list \<Rightarrow> jsval" where
  "visibleFreeAfterFixed js s hiddenCategories =
     (if length (fixedCategories s) = 0 then nullish (freeAfterFixed s) (JNum (Fin 0))
      else if typeof (activeMonthlyNetIncome s) = TNumber
        then js_minus js (activeMonthlyNetIncome s) (visibleFixedTotal js s hiddenCategories)
      else nullish (freeAfterFixed s) (JNum (Fin 0)))"

text \<open>
  The host adds the numbers \<open>rs\<close> exactly, one after the other, starting from the running
  sum \<open>a\<close>: no addition of the left fold rounds or overflows.
\<close>

fun exactSums :: "(real \<Rightarrow> real \<Rightarrow> jsnum) \<Rightarrow> real \<Rightarrow> real list \<Rightarrow> bool" where
  "exactSums add a [] = True"
| "exactSums add a (r # rs) = (add a r = Fin (a + r) \<and> exactSums add (a + r) rs)"


section \<open>DashboardPage: the page state and its transitions\<close>

text \<open>
  The React state of the loaded page: the summary that \<^verbatim>\<open>setSummary\<close> stored and the
  \<^verbatim>\<open>hiddenCategories\<close> array.
\<close>

record dashboard =
  summary :: summary
  hiddenCategories :: "string list"

text \<open>The labels handed to the doughnut chart: \<^verbatim>\<open>fixedCategories.map((item) => item.category)\<close>.\<close>

definition doughnutLabels :: "summary \<Rightarrow> string list" where
  "doughnutLabels s = map category (fixedCategories s)"

text \<open>
  \<^verbatim>\<open>legend?.chart?.data?.labels?.[legendItem.index]\<close>: undefined when the index is
  outside the labels.
\<close>

definition legendLabel :: "string list \<Rightarrow> nat \<Rightarrow> string option" where
  "legendLabel labels index = (if index < length labels then Some (labels ! index) else None)"

text \<open>
  The updater passed to \<^verbatim>\<open>setHiddenCategories\<close> by the legend click:
  \<^verbatim>\<open>current.includes(label) ? current.filter((item) => item !== label) : [...current, label]\<close>.
\<close>

definition toggleHidden :: "string \<Rightarrow> string list \<Rightarrow> string list" where
  "toggleHidden label current =
     (if label \<in> set current then filter (\<lambda>item. item \<noteq> label) current else current @ [label])"

text \<open>
  \<^verbatim>\<open>handleLegendClick\<close>: a missing or empty label returns early. The calls on the chart
  object (\<^verbatim>\<open>toggleDataVisibility\<close>, \<^verbatim>\<open>update\<close>) change the chart only, not the page
  state.
\<close>

definition handleLegendClick :: "nat \<Rightarrow> dashboard \<Rightarrow> dashboard" where
  "handleLegendClick index d =
     (case legendLabel (doughnutLabels (summary d)) index of
        None \<Rightarrow> d
      | Some label \<Rightarrow>
          if label = [] then d
          else d\<lparr>hiddenCategories := toggleHidden label (hiddenCategories d)\<rparr>)"

text \<open>
  The effect on \<^verbatim>\<open>[fixedCategories]\<close>:
  \<^verbatim>\<open>current.filter((category) => fixedCategories.some((item) => item.category === category))\<close>.
\<close>

definition pruneHiddenCategories :: "dashboard \<Rightarrow> dashboard" where
  "pruneHiddenCategories d =
     d\<lparr>hiddenCategories :=
         filter (\<lambda>c. list_ex (\<lambda>item. category item = c) (fixedCategories (summary d)))
           (hiddenCategories d)\<rparr>"

text \<open>What one render of the loaded page derives from its state.\<close>

record view =
  view_hiddenCategorySet :: "string set"
  view_visibleCategoryTotals :: "category_total list"
  view_visibleFixedTotal :: jsval
  view_visibleFreeAfterFixed :: jsval

definition render :: "host \<Rightarrow> dashboard \<Rightarrow> view" where
  "render js d =
     \<lparr>view_hiddenCategorySet = hiddenCategorySet (hiddenCategories d),
      view_visibleCategoryTotals = visibleCategoryTotals (summary d) (hiddenCategories d),
      view_visibleFixedTotal = visibleFixedTotal js (summary d) (hiddenCategories d),
      view_visibleFreeAfterFixed = visibleFreeAfterFixed js (summary d) (hiddenCategories d)\<rparr>"


text \<open>
  The two writers of \<^verbatim>\<open>hiddenCategories\<close> after that: a click on the legend entry
  with some index, and a run of the pruning effect. The effect runs after a render in
  which \<^verbatim>\<open>fixedCategories\<close> is a new array: once when the payload has a category
  list, and after every render when it has none, as \<^verbatim>\<open>|| []\<close> then makes a new array
  each time. So a state of the page is reached from the ingested one by any sequence of
  the two, with any number of effect runs. When React renders, and its check of the order
  of hooks (the page calls these hooks after its early returns), are not modelled: the
  theorems are about the callbacks and the state they read and write.
\<close>

datatype event = LegendClick nat | PruneEffect

fun step :: "dashboard \<Rightarrow> event \<Rightarrow> dashboard" where
  "step d (LegendClick index) = handleLegendClick index d"
| "step d PruneEffect = pruneHiddenCategories d"



section \<open>Example payloads\<close>

text \<open>
  The payload of section 8 of the specification: categories A (100) and B (50), with
  the income and the free-after-fixed figure left open.
\<close>

definition summaryAB :: "jsval \<Rightarrow> jsval \<Rightarrow> summary" where
  "summaryAB income free =
     \<lparr>fixedExpenseCategoryTotals =
        Some [\<lparr>category = ''A'', total = JNum (Fin 100)\<rparr>,
              \<lparr>category = ''B'', total = JNum (Fin 50)\<rparr>],
      effectiveFixedExpenseTotal = JUndefined,
      fixedExpenseTotal = JNum (Fin 150),
      fixedExpensesTotal = JUndefined,
      activeMonthlyNetIncome_field = income,
      monthlyNetIncome = JUndefined,
      freeAfterFixed = free\<rparr>"

text \<open>A payload with no category list and a default total of 750.\<close>

definition summaryNoCategories :: summary where
  "summaryNoCategories =
     \<lparr>fixedExpenseCategoryTotals = None,
      effectiveFixedExpenseTotal = JNull,
      fixedExpenseTotal = JNum (Fin 750),
      fixedExpensesTotal = JUndefined,
      activeMonthlyNetIncome_field = JStr ''1000'',
      monthlyNetIncome = JNum (Fin 900),
      freeAfterFixed = JNum (Fin 150)\<rparr>"

text \<open>
  A host for the examples. It converts no string, and it adds integers of magnitude up to
  \<open>2 ^ 53\<close>, which doubles add exactly; no example adds anything else.
\<close>

definition addSmallIntegers :: "real \<Rightarrow> real \<Rightarrow> jsnum" where
  "addSmallIntegers a b =
     (if a \<in> \<int> \<and> b \<in> \<int> \<and> \<bar>a\<bar> \<le> 2 ^ 53 \<and> \<bar>b\<bar> \<le> 2 ^ 53 \<and> \<bar>a + b\<bar> \<le> 2 ^ 53
      then Fin (a + b) else NaN)"

definition exampleHost :: host where
  "exampleHost = \<lparr>stringToNumber = (\<lambda>s. NaN), addDoubles = addSmallIntegers\<rparr>"


section \<open>DashboardPage: the forecast\<close>

text \<open>
  The local calendar date of a \<^verbatim>\<open>Date\<close>, named by its getters: \<open>getMonth\<close> counts
  from 0 (January) to 11, \<open>getDate\<close> is the day of the month, from 1.
\<close>

record jsdate =
  getFullYear :: int
  getMonth :: nat
  getDate :: nat

definition leapYear :: "int \<Rightarrow> bool" where
  "leapYear y = (y mod 4 = 0 \<and> (y mod 100 \<noteq> 0 \<or> y mod 400 = 0))"

definition daysInMonth :: "int \<Rightarrow> nat \<Rightarrow> nat" where
  "daysInMonth y m =
     (if m = 1 then (if leapYear y then 29 else 28)
      else if m = 3 \<or> m = 5 \<or> m = 8 \<or> m = 10 then 30
      else 31)"

text \<open>
  \<^verbatim>\<open>date.setMonth(m)\<close> for \<open>m \<ge> 0\<close>. ECMAScript's MakeDay takes the first day of month
  \<open>m mod 12\<close> of year \<open>y + m div 12\<close> and adds \<open>getDate - 1\<close> days to it, so a day of the
  month past the end of the target month runs over into the month after it. A day of the
  month is at most 31 and a month has at least 28 days, so it runs over by one month at
  most.
\<close>

definition setMonth :: "jsdate \<Rightarrow> nat \<Rightarrow> jsdate" where
  "setMonth date m =
     (let ym = getFullYear date + int (m div 12);
          mn = m mod 12;
          dim = daysInMonth ym mn
      in if getDate date \<le> dim
           then \<lparr>getFullYear = ym, getMonth = mn, getDate = getDate date\<rparr>
         else if mn = 11
           then \<lparr>getFullYear = ym + 1, getMonth = 0, getDate = getDate date - dim\<rparr>
         else \<lparr>getFullYear = ym, getMonth = mn + 1, getDate = getDate date - dim\<rparr>)"

text \<open>
  ECMAScript's day numbers, against which \<open>setMonth\<close> is checked below: the day
  number of the first day of a year (DayFromYear), the days of a year before a month,
  and the day number of a date.
\<close>

definition dayFromYear :: "int \<Rightarrow> int" where
  "dayFromYear y =
     365 * (y - 1970) + (y - 1969) div 4 - (y - 1901) div 100 + (y - 1601) div 400"

definition daysBeforeMonth :: "int \<Rightarrow> nat \<Rightarrow> nat" where
  "daysBeforeMonth y m = sum_list (map (daysInMonth y) [0..<m])"

definition dayNumber :: "jsdate \<Rightarrow> int" where
  "dayNumber date =
     dayFromYear (getFullYear date) + int (daysBeforeMonth (getFullYear date) (getMonth date))
       + int (getDate date) - 1"

text \<open>A date of the calendar: a month from 0 to 11 and a day that the month has.\<close>

definition calendarDate :: "jsdate \<Rightarrow> bool" where
  "calendarDate date =
     (getMonth date < 12 \<and> 1 \<le> getDate date \<and>
      getDate date \<le> daysInMonth (getFullYear date) (getMonth date))"

text \<open>
  One point of the forecast. The label
  \<^verbatim>\<open>toLocaleDateString('no-NO', {month: 'short', year: 'numeric'})\<close> prints the month and
  the year of the date and nothing else; it is kept as that pair (year, month).
\<close>

record forecast_point =
  label :: "int \<times> nat"
  fixedCosts :: jsval
  availableAfterFixed :: jsval

text \<open>
  \<^verbatim>\<open>Array.from({ length: 12 }, (_, index) => ...)\<close>; \<open>now\<close> is the local date that
  \<^verbatim>\<open>new Date()\<close> returns.
\<close>

definition monthlyForecast :: "jsdate \<Rightarrow> jsval \<Rightarrow> jsval \<Rightarrow> forecast_point list" where
  "monthlyForecast now visibleFixedTotal' visibleFreeAfterFixed' =
     map (\<lambda>index.
            let date = setMonth now (getMonth now + index)
            in \<lparr>label = (getFullYear date, getMonth date),
                fixedCosts = visibleFixedTotal',
                availableAfterFixed = visibleFreeAfterFixed'\<rparr>)
         [0..<12]"

section \<open>SettingsPage: saving the owner incomes\<close>

text \<open>
  \<^verbatim>\<open>name.trim()\<close>: the string without its leading and trailing white space. Which
  code units are white space is the host's table, a parameter.
\<close>

definition trim :: "(char \<Rightarrow> bool) \<Rightarrow> string \<Rightarrow> string" where
  "trim isWhiteSpace s = rev (dropWhile isWhiteSpace (rev (dropWhile isWhiteSpace s)))"

text \<open>\<^verbatim>\<open>Number.isFinite(n)\<close> and \<^verbatim>\<open>n < 0\<close> on a number.\<close>

fun isFinite :: "jsnum \<Rightarrow> bool" where
  "isFinite (Fin r) = True"
| "isFinite PosInf = False"
| "isFinite NegInf = False"
| "isFinite NaN = False"

fun lessThanZero :: "jsnum \<Rightarrow> bool" where
  "lessThanZero (Fin r) = (r < 0)"
| "lessThanZero PosInf = False"
| "lessThanZero NegInf = True"
| "lessThanZero NaN = False"

text \<open>
  What \<^verbatim>\<open>ownerError\<close> shows: nothing; the message of the error thrown for an amount,
  which names the trimmed owner name; or the message of a rejected settings update.
\<close>

datatype owner_error = NoError | InvalidAmount string | UpdateFailed string

datatype owner_status = NoStatus | Saved

text \<open>One entry \<^verbatim>\<open>{ name, monthlyNetIncome }\<close> of the payload's \<^verbatim>\<open>ownerProfiles\<close>.\<close>

record owner_profile =
  owner_name :: string
  owner_monthlyNetIncome :: jsnum

text \<open>
  The two filters over \<^verbatim>\<open>Object.entries(ownerInputs)\<close>: the name is not blank, and the
  value is neither the empty string nor null nor undefined.
\<close>

definition filteredEntries :: "(char \<Rightarrow> bool) \<Rightarrow> (string \<times> jsval) list \<Rightarrow> (string \<times> jsval) list" where
  "filteredEntries isWhiteSpace entries =
     filter (\<lambda>(name, value). value \<noteq> JStr [] \<and> value \<noteq> JNull \<and> value \<noteq> JUndefined)
       (filter (\<lambda>(name, value). trim isWhiteSpace name \<noteq> []) entries)"

text \<open>The callback of \<^verbatim>\<open>.map\<close>: it throws for an amount that is not a non-negative number.\<close>

definition toOwnerProfile ::
  "(char \<Rightarrow> bool) \<Rightarrow> (string \<Rightarrow> jsnum) \<Rightarrow> string \<times> jsval \<Rightarrow> owner_error + owner_profile" where
  "toOwnerProfile isWhiteSpace str2num entry =
     (case entry of (name, value) \<Rightarrow>
        let trimmedName = trim isWhiteSpace name;
            numericValue = Number str2num value
        in if \<not> isFinite numericValue \<or> lessThanZero numericValue
             then Inl (InvalidAmount trimmedName)
           else Inr \<lparr>owner_name = trimmedName, owner_monthlyNetIncome = numericValue\<rparr>)"

text \<open>\<^verbatim>\<open>xs.map(g)\<close> for a callback that may throw: the first throw ends the map.\<close>

fun mapThrowing :: "('a \<Rightarrow> 'e + 'b) \<Rightarrow> 'a list \<Rightarrow> 'e + 'b list" where
  "mapThrowing g [] = Inr []"
| "mapThrowing g (x # xs) =
     (case g x of
        Inl e \<Rightarrow> Inl e
      | Inr y \<Rightarrow> (case mapThrowing g xs of Inl e \<Rightarrow> Inl e | Inr ys \<Rightarrow> Inr (y # ys)))"

definition ownerPayload ::
  "(char \<Rightarrow> bool) \<Rightarrow> (string \<Rightarrow> jsnum) \<Rightarrow> (string \<times> jsval) list \<Rightarrow> owner_error + owner_profile list" where
  "ownerPayload isWhiteSpace str2num entries =
     mapThrowing (toOwnerProfile isWhiteSpace str2num) (filteredEntries isWhiteSpace entries)"

text \<open>
  \<^verbatim>\<open>String(v)\<close>; the text of a number is the host's, a parameter.
\<close>

fun String :: "(jsnum \<Rightarrow> string) \<Rightarrow> jsval \<Rightarrow> string" where
  "String num2str JUndefined = ''undefined''"
| "String num2str JNull = ''null''"
| "String num2str (JBool b) = (if b then ''true'' else ''false'')"
| "String num2str (JNum n) = num2str n"
| "String num2str (JStr s) = s"

text \<open>
  \<^verbatim>\<open>obj[key] = value\<close> on the entries of an object: an existing key keeps its place.
  (Keys that are array indices, which an object lists first, are not told apart.)
\<close>

fun assign :: "string \<Rightarrow> jsval \<Rightarrow> (string \<times> jsval) list \<Rightarrow> (string \<times> jsval) list" where
  "assign key v [] = [(key, v)]"
| "assign key v ((k, w) # es) = (if k = key then (k, v) # es else (k, w) # assign key v es)"

text \<open>
  The loop over \<^verbatim>\<open>updated.ownerProfiles || []\<close> that rebuilds the inputs; a profile of
  the response is its name and its \<^verbatim>\<open>monthlyNetIncome\<close>.
\<close>

definition refreshed :: "(jsnum \<Rightarrow> string) \<Rightarrow> (string \<times> jsval) list option \<Rightarrow> (string \<times> jsval) list" where
  "refreshed num2str ownerProfiles =
     foldl (\<lambda>acc (name, income).
              if name \<noteq> [] then assign name (JStr (String num2str (nullish income (JStr [])))) acc
              else acc)
       [] (case ownerProfiles of None \<Rightarrow> [] | Some ps \<Rightarrow> ps)"

text \<open>The state of the owner-income card; \<open>ownerInputs\<close> is the object as its entries.\<close>

record settings_page =
  ownerInputs :: "(string \<times> jsval) list"
  ownerStatus :: owner_status
  ownerError :: owner_error
  isSavingOwners :: bool

text \<open>
  \<^verbatim>\<open>handleSaveOwners\<close>. The settings service is a parameter: \<open>updateSettings payload srv\<close>
  is the outcome of \<^verbatim>\<open>api.updateSettings({ ownerProfiles: payload })\<close> on the stored
  settings \<open>srv\<close>, a rejection with its message or the \<^verbatim>\<open>ownerProfiles\<close> of the
  response, together with the settings the call leaves. A rejection with an empty
  message shows the default text, which \<open>UpdateFailed\<close> stands for as well.
\<close>

definition handleSaveOwners ::
  "(char \<Rightarrow> bool) \<Rightarrow> (string \<Rightarrow> jsnum) \<Rightarrow> (jsnum \<Rightarrow> string) \<Rightarrow>
   (owner_profile list \<Rightarrow> 'srv \<Rightarrow> (string + (string \<times> jsval) list option) \<times> 'srv) \<Rightarrow>
   settings_page \<Rightarrow> 'srv \<Rightarrow> settings_page \<times> 'srv" where
  "handleSaveOwners isWhiteSpace str2num num2str updateSettings page srv =
     (case ownerPayload isWhiteSpace str2num (ownerInputs page) of
        Inl err \<Rightarrow>
          (page\<lparr>ownerStatus := NoStatus, ownerError := err, isSavingOwners := False\<rparr>, srv)
      | Inr payload \<Rightarrow>
          (case updateSettings payload srv of
             (Inl message, srv') \<Rightarrow>
               (page\<lparr>ownerStatus := NoStatus, ownerError := UpdateFailed message,
                     isSavingOwners := False\<rparr>, srv')
           | (Inr updated, srv') \<Rightarrow>
               (page\<lparr>ownerInputs := refreshed num2str (updated),
                     ownerStatus := Saved, ownerError := NoError,
                     isSavingOwners := False\<rparr>, srv')))"

text \<open>
  Hosts and a settings service for the examples: only the space is white space, three
  amounts are read, and the service records each payload it is sent and answers with no
  profiles.
\<close>

definition spaceOnly :: "char \<Rightarrow> bool" where
  "spaceOnly c = (c = CHR '' '')"

definition readAmount :: "string \<Rightarrow> jsnum" where
  "readAmount s =
     (if s = ''1000'' then Fin 1000 else if s = ''0'' then Fin 0
      else if s = ''-5'' then Fin (- 5) else NaN)"

definition recordCall ::
  "owner_profile list \<Rightarrow> owner_profile list list \<Rightarrow>
   (string + (string \<times> jsval) list option) \<times> owner_profile list list" where
  "recordCall payload calls = (Inr None, calls @ [payload])"

definition pageWith :: "(string \<times> jsval) list \<Rightarrow> settings_page" where
  "pageWith entries =
     \<lparr>ownerInputs = entries, ownerStatus = NoStatus, ownerError = NoError,
      isSavingOwners = False\<rparr>"


section \<open>The expense aggregator, the binding tracker and the savings summarizer\<close>

text \<open>
  The pages only consume these three: the summary payload arrives with its totals and
  binding expirations computed by the service, and \<^verbatim>\<open>summarizeSavingsGoals\<close> is
  imported from \<^verbatim>\<open>utils/savings.js\<close>. Their code is not among the sources at hand, so
  they are modelled from sections 3, 4.1, 4.2 and 4.6 of the specification, with decimal
  amounts as real numbers.
\<close>

text \<open>
  Modelled from the spec: the validity rule of section 3 for \<open>amountPerMonth\<close>,
  \<open>targetAmount\<close> and \<open>savedAmount\<close> (the validating code is missing). An amount is
  valid when it is finite and not negative; the result is its value.
\<close>

fun validAmount :: "jsnum \<Rightarrow> real option" where
  "validAmount (Fin r) = (if 0 \<le> r then Some r else None)"
| "validAmount PosInf = None"
| "validAmount NegInf = None"
| "validAmount NaN = None"

text \<open>
  A binding end date: none, one that does not parse, or an instant in milliseconds since
  the epoch.
\<close>

datatype binding_date = NoDate | Unparseable | EndsAt int

text \<open>The fixed-expense record of section 3; the aggregations do not read the owners.\<close>

record fixed_expense =
  expense_id :: string
  expense_name :: string
  expense_category :: string
  expense_level :: string
  amountPerMonth :: jsnum
  bindingEndDate :: binding_date

text \<open>
  Modelled from the spec: the sentinel buckets of section 4.1 for an empty or missing
  category or level (the aggregator's code is missing; the specification leaves the
  labels open). A missing label is the empty string.
\<close>

definition categoryOf :: "fixed_expense \<Rightarrow> string" where
  "categoryOf e = (if expense_category e = [] then ''Uncategorized'' else expense_category e)"

definition levelOf :: "fixed_expense \<Rightarrow> string" where
  "levelOf e = (if expense_level e = [] then ''Unspecified'' else expense_level e)"

text \<open>
  Modelled from the spec: the running totals of section 4.1 (the aggregator's code is
  missing). An amount is added to the total of its key; a new key goes last, which gives
  the first-seen order.
\<close>

fun addTo :: "string \<Rightarrow> real \<Rightarrow> (string \<times> real) list \<Rightarrow> (string \<times> real) list" where
  "addTo key amount [] = [(key, amount)]"
| "addTo key amount ((k, t) # totals) =
     (if k = key then (k, t + amount) # totals else (k, t) # addTo key amount totals)"

text \<open>
  Modelled from the spec: the ExpenseAggregator of section 4.1 (its code is missing).
  One pass over the expenses; an expense with a valid amount is added to the total of its
  category and to the total of its level, any other expense is skipped. The result is
  the category totals and the level totals, each a list of label and total.
\<close>

definition aggregateStep ::
  "(string \<times> real) list \<times> (string \<times> real) list \<Rightarrow> fixed_expense \<Rightarrow>
   (string \<times> real) list \<times> (string \<times> real) list" where
  "aggregateStep acc e =
     (case validAmount (amountPerMonth e) of
        None \<Rightarrow> acc
      | Some amount \<Rightarrow> (addTo (categoryOf e) amount (fst acc), addTo (levelOf e) amount (snd acc)))"

definition aggregateExpenses ::
  "fixed_expense list \<Rightarrow> (string \<times> real) list \<times> (string \<times> real) list" where
  "aggregateExpenses expenses = foldl aggregateStep ([], []) expenses"

definition categoryTotals :: "fixed_expense list \<Rightarrow> (string \<times> real) list" where
  "categoryTotals expenses = fst (aggregateExpenses expenses)"

definition levelTotals :: "fixed_expense list \<Rightarrow> (string \<times> real) list" where
  "levelTotals expenses = snd (aggregateExpenses expenses)"

text \<open>The total that a list of totals holds for a label: zero when the label is absent.\<close>

definition totalFor :: "(string \<times> real) list \<Rightarrow> string \<Rightarrow> real" where
  "totalFor totals key = (case map_of totals key of None \<Rightarrow> 0 | Some t \<Rightarrow> t)"

text \<open>The valid monthly amounts of the expenses that a predicate selects, in order.\<close>

definition validAmounts :: "(fixed_expense \<Rightarrow> bool) \<Rightarrow> fixed_expense list \<Rightarrow> real list" where
  "validAmounts P expenses = List.map_filter (\<lambda>e. validAmount (amountPerMonth e)) (filter P expenses)"

text \<open>The BindingExpiration record of section 3.\<close>

record binding_expiration =
  binding_id :: string
  binding_name :: string
  binding_endDate :: int
  daysLeft :: int
  binding_amountPerMonth :: jsnum

definition windowDays :: int where
  "windowDays = 90"

definition msPerDay :: int where
  "msPerDay = 86400000"

text \<open>
  Modelled from the spec: \<open>daysLeft\<close> of section 4.2, the floor of the difference in
  whole days (the tracker's code is missing). Integer division rounds down, also below
  zero.
\<close>

definition daysLeftAt :: "int \<Rightarrow> int \<Rightarrow> int" where
  "daysLeftAt now endDate = (endDate - now) div msPerDay"

text \<open>
  Modelled from the spec: which expenses the tracker of section 4.2 keeps (its code is
  missing): those whose end date parses and lies 0 to \<open>windowDays\<close> days ahead.
\<close>

definition toExpiration :: "int \<Rightarrow> fixed_expense \<Rightarrow> binding_expiration option" where
  "toExpiration now e =
     (case bindingEndDate e of
        EndsAt t \<Rightarrow>
          if 0 \<le> daysLeftAt now t \<and> daysLeftAt now t \<le> windowDays
            then Some \<lparr>binding_id = expense_id e, binding_name = expense_name e,
                       binding_endDate = t, daysLeft = daysLeftAt now t,
                       binding_amountPerMonth = amountPerMonth e\<rparr>
          else None
      | _ \<Rightarrow> None)"

text \<open>
  Modelled from the spec: the BindingExpirationTracker of section 4.2 (its code is
  missing). The kept records are sorted by the pair of \<open>daysLeft\<close> and name; pairs are
  ordered lexicographically, and names as lists of characters by character code, so that
  the comparison is case-sensitive.
\<close>

definition bindingExpirations :: "int \<Rightarrow> fixed_expense list \<Rightarrow> binding_expiration list" where
  "bindingExpirations now expenses =
     sort_key (\<lambda>b. (daysLeft b, binding_name b)) (List.map_filter (toExpiration now) expenses)"

text \<open>The SavingsGoal record of section 3 and the statistics object of section 6.\<close>

record savings_goal =
  goal_id :: string
  goal_name :: string
  targetAmount :: jsnum
  savedAmount :: jsnum

record savings_stats =
  goalCount :: nat
  totalSaved :: real
  totalTarget :: real
  avgProgress :: jsnum

text \<open>Number division and \<^verbatim>\<open>Math.round\<close>, which rounds a half up.\<close>

definition jsdiv :: "real \<Rightarrow> real \<Rightarrow> jsnum" where
  "jsdiv a b =
     (if b \<noteq> 0 then Fin (a / b)
      else if a = 0 then NaN else if 0 < a then PosInf else NegInf)"

fun jsround :: "jsnum \<Rightarrow> jsnum" where
  "jsround (Fin r) = Fin (of_int \<lfloor>r + 1 / 2\<rfloor>)"
| "jsround PosInf = PosInf"
| "jsround NegInf = NegInf"
| "jsround NaN = NaN"

text \<open>
  Modelled from the spec: the SavingsGoalSummarizer of section 4.6
  (\<^verbatim>\<open>summarizeSavingsGoals\<close> of \<^verbatim>\<open>utils/savings.js\<close>, which is missing). Invalid
  amounts are left out of the two sums; the progress is zero without goals or without a
  target, and the rounded percentage otherwise.
\<close>

definition summarizeSavingsGoals :: "savings_goal list \<Rightarrow> savings_stats" where
  "summarizeSavingsGoals goals =
     (let count = length goals;
          saved = sum_list (List.map_filter (\<lambda>g. validAmount (savedAmount g)) goals);
          target = sum_list (List.map_filter (\<lambda>g. validAmount (targetAmount g)) goals)
      in \<lparr>goalCount = count, totalSaved = saved, totalTarget = target,
          avgProgress = (if count = 0 \<or> target = 0 then Fin 0
                         else jsround (jsdiv (100 * saved) target))\<rparr>)"

text \<open>Example records.\<close>

definition goal :: "real \<Rightarrow> real \<Rightarrow> savings_goal" where
  "goal saved target =
     \<lparr>goal_id = ''g'', goal_name = ''goal'', targetAmount = Fin target, savedAmount = Fin saved\<rparr>"

definition expense :: "string \<Rightarrow> string \<Rightarrow> string \<Rightarrow> jsnum \<Rightarrow> binding_date \<Rightarrow> fixed_expense" where
  "expense name cat lev amount endDate =
     \<lparr>expense_id = name, expense_name = name, expense_category = cat, expense_level = lev,
      amountPerMonth = amount, bindingEndDate = endDate\<rparr>"

text \<open>
  Expenses whose binding ends 45 days, 120 days, 45 days and an hour, a millisecond ago,
  now, and a millisecond short of 91 days after the instant 1000, and one whose date does
  not parse.
\<close>

definition exampleBindings :: "fixed_expense list" where
  "exampleBindings =
     [expense ''alpha'' ''c'' ''l'' (Fin 10) (EndsAt (1000 + 45 * 86400000)),
      expense ''Late'' ''c'' ''l'' (Fin 10) (EndsAt (1000 + 120 * 86400000)),
      expense ''Bad'' ''c'' ''l'' (Fin 10) Unparseable,
      expense ''Beta'' ''c'' ''l'' (Fin 10) (EndsAt (1000 + 45 * 86400000 + 3600000)),
      expense ''Past'' ''c'' ''l'' (Fin 10) (EndsAt 999),
      expense ''Today'' ''c'' ''l'' (Fin 10) (EndsAt 1000),
      expense ''Edge'' ''c'' ''l'' (Fin 10) (EndsAt (1000 + 91 * 86400000 - 1))]"

text \<open>Expenses of which two have an invalid amount and one has no category.\<close>

definition exampleExpenses :: "fixed_expense list" where
  "exampleExpenses =
     [expense ''Rent'' ''Housing'' ''Must'' (Fin 9000) NoDate,
      expense ''Gym'' [] ''Nice'' (Fin 400) NoDate,
      expense ''Broken'' ''Housing'' ''Must'' (Fin (- 50)) NoDate,
      expense ''Power'' ''Housing'' ''Must'' (Fin 1100) NoDate,
      expense ''Odd'' ''Housing'' [] NaN NoDate]"


section \<open>Theorems: the income resolver and the visibility filter\<close>

subsection \<open>Helper facts\<close>

text \<open>Where the host adds exactly, the reducer gives the real sum.\<close>

lemma sumTotals_exact_aux:
  "map total items = map (\<lambda>r. JNum (Fin r)) rs \<Longrightarrow> exactSums (addDoubles js) a rs \<Longrightarrow>
   foldl (\<lambda>sum item.
            jsadd (addDoubles js) sum (or_zero (Number (stringToNumber js) (total item))))
     (Fin a) items = Fin (a + sum_list rs)"
proof (induction items arbitrary: a rs)
  case Nil
  then show ?case by simp
next
  case (Cons item items)
  then obtain r rs' where rs: "rs = r # rs'" and t: "total item = JNum (Fin r)"
    and rest: "map total items = map (\<lambda>r. JNum (Fin r)) rs'"
    by (cases rs) auto
  from Cons.prems(2) rs have here: "addDoubles js a r = Fin (a + r)"
    and later: "exactSums (addDoubles js) (a + r) rs'"
    by simp_all
  have "or_zero (Fin r) = Fin r" by (simp add: or_zero_def)
  with Cons.IH [OF rest later] rs t here show ?case by (simp add: add.assoc)
qed

lemma sumTotals_exact:
  "map total items = map (\<lambda>r. JNum (Fin r)) rs \<Longrightarrow> exactSums (addDoubles js) 0 rs \<Longrightarrow>
   sumTotals js items = Fin (sum_list rs)"
  using sumTotals_exact_aux [of items rs js 0] by (simp add: sumTotals_def)

text \<open>The derived figures read the hidden categories through their set only.\<close>

lemma visible_by_set:
  "set h = set h' \<Longrightarrow> visibleCategoryTotals s h = visibleCategoryTotals s h'"
  by (simp add: visibleCategoryTotals_def hiddenCategorySet_def)

lemma fixedTotal_by_set:
  "set h = set h' \<Longrightarrow> visibleFixedTotal js s h = visibleFixedTotal js s h'"
  by (simp add: visibleFixedTotal_def visible_by_set [of h h'])

lemma free_by_set:
  "set h = set h' \<Longrightarrow> visibleFreeAfterFixed js s h = visibleFreeAfterFixed js s h'"
  by (simp add: visibleFreeAfterFixed_def fixedTotal_by_set [of h h'])

lemma set_toggleHidden_twice: "set (toggleHidden l (toggleHidden l h)) = set h"
  by (auto simp: toggleHidden_def)

lemma handleLegendClick_twice_set:
  "set (hiddenCategories (handleLegendClick i (handleLegendClick i d))) = set (hiddenCategories d)"
  by (auto simp: handleLegendClick_def toggleHidden_def split: option.splits)

lemma handleLegendClick_summary: "summary (handleLegendClick i d) = summary d"
  by (simp add: handleLegendClick_def split: option.splits)












subsection \<open>C1: the free-after-fixed figure\<close>

text \<open>
  C1. For a summary with a non-empty category list: when the resolved income is a number
  \<open>n\<close>, the visible fixed total is the number summed over the visible categories and
  \<open>visibleFreeAfterFixed\<close> is \<open>n\<close> minus it; when the income is not a number,
  \<open>visibleFreeAfterFixed\<close> is \<^verbatim>\<open>summary.freeAfterFixed ?? 0\<close>, the same for every
  set of hidden categories \<open>h\<close>, \<open>h'\<close>, and it is the supplied \<open>freeAfterFixed\<close> itself
  whenever one is supplied. The witness is section 8's payload: with the income unknown
  and 200 supplied, hiding A moves the visible fixed total from 150 to 50 and leaves
  \<open>visibleFreeAfterFixed\<close> at 200; with an income of 1000, hiding A gives 950.
\<close>

theorem visibleFreeAfterFixed_branches:
  assumes "fixedCategories s \<noteq> []"
  shows "(\<forall>n. activeMonthlyNetIncome s = JNum n \<longrightarrow>
            visibleFixedTotal js s h = JNum (sumTotals js (visibleCategoryTotals s h)) \<and>
            visibleFreeAfterFixed js s h
              = JNum (jssub (addDoubles js) n (sumTotals js (visibleCategoryTotals s h)))) \<and>
         (typeof (activeMonthlyNetIncome s) \<noteq> TNumber \<longrightarrow>
            visibleFreeAfterFixed js s h = nullish (freeAfterFixed s) (JNum (Fin 0)) \<and>
            visibleFreeAfterFixed js s h' = visibleFreeAfterFixed js s h) \<and>
         (typeof (activeMonthlyNetIncome s) \<noteq> TNumber \<and> freeAfterFixed s \<noteq> JUndefined \<and>
          freeAfterFixed s \<noteq> JNull \<longrightarrow>
            visibleFreeAfterFixed js s h = freeAfterFixed s)"
  using assms
  by (simp add: visibleFreeAfterFixed_def visibleFixedTotal_def js_minus_def nullish_def)

theorem visibleFreeAfterFixed_branches_witness:
  "fixedCategories (summaryAB JNull (JNum (Fin 200))) \<noteq> [] \<and>
   typeof (activeMonthlyNetIncome (summaryAB JNull (JNum (Fin 200)))) \<noteq> TNumber \<and>
   visibleFixedTotal exampleHost (summaryAB JNull (JNum (Fin 200))) [] = JNum (Fin 150) \<and>
   visibleFixedTotal exampleHost (summaryAB JNull (JNum (Fin 200))) [''A''] = JNum (Fin 50) \<and>
   visibleFreeAfterFixed exampleHost (summaryAB JNull (JNum (Fin 200))) [] = JNum (Fin 200) \<and>
   visibleFreeAfterFixed exampleHost (summaryAB JNull (JNum (Fin 200))) [''A''] = JNum (Fin 200) \<and>
   activeMonthlyNetIncome (summaryAB (JNum (Fin 1000)) (JNum (Fin 850))) = JNum (Fin 1000) \<and>
   visibleFreeAfterFixed exampleHost (summaryAB (JNum (Fin 1000)) (JNum (Fin 850))) [''A'']
     = JNum (Fin 950)"
  using
    visibleFreeAfterFixed_branches
      [of "summaryAB JNull (JNum (Fin 200))" exampleHost "[''A'']" "[]"]
    visibleFreeAfterFixed_branches
      [of "summaryAB (JNum (Fin 1000)) (JNum (Fin 850))" exampleHost "[''A'']" "[]"]
  by (simp add: summaryAB_def fixedCategories_def activeMonthlyNetIncome_def
      visibleFixedTotal_def visibleCategoryTotals_def hiddenCategorySet_def sumTotals_def
      or_zero_def nullish_def jssub_def exampleHost_def addSmallIntegers_def)

subsection \<open>C2: toggling a label twice\<close>

text \<open>
  C2. For every label \<open>l\<close> and every array of hidden categories \<open>h\<close>, applying the
  toggle updater twice with \<open>l\<close> gives back the hidden set of \<open>h\<close>, and with it the
  visible category totals and the visible fixed total. The same holds for two clicks on
  one legend entry, whatever its index: the page then renders what it rendered before.
\<close>

theorem toggle_twice_restores:
  "hiddenCategorySet (toggleHidden l (toggleHidden l h)) = hiddenCategorySet h \<and>
   visibleCategoryTotals s (toggleHidden l (toggleHidden l h)) = visibleCategoryTotals s h \<and>
   visibleFixedTotal js s (toggleHidden l (toggleHidden l h)) = visibleFixedTotal js s h \<and>
   hiddenCategorySet (hiddenCategories (handleLegendClick i (handleLegendClick i d))) =
     hiddenCategorySet (hiddenCategories d) \<and>
   render js (handleLegendClick i (handleLegendClick i d)) = render js d"
proof -
  have a: "set (toggleHidden l (toggleHidden l h)) = set h"
    by (rule set_toggleHidden_twice)
  have b: "set (hiddenCategories (handleLegendClick i (handleLegendClick i d)))
      = set (hiddenCategories d)"
    by (rule handleLegendClick_twice_set)
  show ?thesis
    using a b visible_by_set [OF a, of s] fixedTotal_by_set [OF a, of js s]
      visible_by_set [OF b] fixedTotal_by_set [OF b] free_by_set [OF b]
    by (simp add: hiddenCategorySet_def render_def handleLegendClick_summary)
qed

subsection \<open>C3: pruning the hidden categories\<close>



subsection \<open>C4: the visible fixed total\<close>

text \<open>
  C4. With an empty category list the visible fixed total is the default total of the
  payload, the same whatever is hidden. Otherwise it is the number that the page's
  reducer sums, with the host's addition and from left to right, over the visible
  category totals, which are the category totals whose label is not hidden; when the
  visible totals are the finite numbers \<open>rs\<close> and the host adds them exactly, it is their
  sum. In the witness nothing is hidden, A is hidden, and both are hidden: 150, 50, 0.
\<close>

theorem visibleFixedTotal_cases:
  "(fixedCategories s = [] \<longrightarrow>
      visibleFixedTotal js s h = defaultFixedTotal s \<and>
      visibleFixedTotal js s h' = visibleFixedTotal js s h) \<and>
   (fixedCategories s \<noteq> [] \<longrightarrow>
      visibleFixedTotal js s h = JNum (sumTotals js (visibleCategoryTotals s h))) \<and>
   visibleCategoryTotals s h = filter (\<lambda>item. category item \<notin> set h) (fixedCategories s) \<and>
   (fixedCategories s \<noteq> [] \<and>
    map total (visibleCategoryTotals s h) = map (\<lambda>r. JNum (Fin r)) rs \<and>
    exactSums (addDoubles js) 0 rs \<longrightarrow>
      visibleFixedTotal js s h = JNum (Fin (sum_list rs)))"
  by (simp add: visibleFixedTotal_def visibleCategoryTotals_def hiddenCategorySet_def
      sumTotals_exact)

theorem visibleFixedTotal_cases_witness:
  "fixedCategories summaryNoCategories = [] \<and>
   visibleFixedTotal exampleHost summaryNoCategories [''A'', ''B''] = JNum (Fin 750) \<and>
   visibleFixedTotal exampleHost summaryNoCategories [] = JNum (Fin 750) \<and>
   fixedCategories (summaryAB JNull JNull) \<noteq> [] \<and>
   map total (visibleCategoryTotals (summaryAB JNull JNull) [])
     = map (\<lambda>r. JNum (Fin r)) [100, 50] \<and>
   exactSums (addDoubles exampleHost) 0 [100, 50] \<and>
   visibleFixedTotal exampleHost (summaryAB JNull JNull) [] = JNum (Fin 150) \<and>
   visibleFixedTotal exampleHost (summaryAB JNull JNull) [''A''] = JNum (Fin 50) \<and>
   visibleFixedTotal exampleHost (summaryAB JNull JNull) [''A'', ''B''] = JNum (Fin 0)"
  using visibleFixedTotal_cases [of summaryNoCategories exampleHost "[''A'', ''B'']" "[]" "[]"]
    visibleFixedTotal_cases [of "summaryAB JNull JNull" exampleHost "[]" "[]" "[100, 50]"]
    visibleFixedTotal_cases [of "summaryAB JNull JNull" exampleHost "[''A'']" "[]" "[50]"]
    visibleFixedTotal_cases [of "summaryAB JNull JNull" exampleHost "[''A'', ''B'']" "[]" "[]"]
  by (simp add: summaryAB_def summaryNoCategories_def fixedCategories_def defaultFixedTotal_def
      nullish_def visibleFixedTotal_def visibleCategoryTotals_def hiddenCategorySet_def
      sumTotals_def or_zero_def exampleHost_def addSmallIntegers_def)

subsection \<open>C6: the forecast\<close>

text \<open>
  \<open>setMonth\<close> agrees with MakeDay: for a day of the month from 1 to 31 the result is a
  date of the calendar, and its day number is the day number of the first day of the
  target month plus the day of the month minus one.
\<close>

lemma daysInMonth_bounds: "28 \<le> daysInMonth y m \<and> daysInMonth y m \<le> 31"
  by (simp add: daysInMonth_def)

lemma daysBeforeMonth_Suc: "daysBeforeMonth y (Suc m) = daysBeforeMonth y m + daysInMonth y m"
  by (simp add: daysBeforeMonth_def)

lemma setMonth_is_MakeDay:
  assumes "1 \<le> getDate date" and "getDate date \<le> 31"
  shows "calendarDate (setMonth date m) \<and>
         dayNumber (setMonth date m) =
           dayNumber \<lparr>getFullYear = getFullYear date + int (m div 12), getMonth = m mod 12,
                      getDate = 1\<rparr> + int (getDate date) - 1"
proof -
  let ?ym = "getFullYear date + int (m div 12)"
  let ?mn = "m mod 12"
  let ?dim = "daysInMonth ?ym ?mn"
  have mn: "?mn < 12" by simp
  show ?thesis
  proof (cases "getDate date \<le> ?dim")
    case True
    with assms mn show ?thesis
      by (simp add: setMonth_def Let_def calendarDate_def dayNumber_def)
  next
    case False
    with assms have not_dec: "?mn \<noteq> 11"
      by (auto simp: daysInMonth_def)
    with mn have next_month: "Suc ?mn < 12" by linarith
    have over: "getDate date - ?dim \<le> 3" "1 \<le> getDate date - ?dim"
      using False assms daysInMonth_bounds [of ?ym ?mn] by linarith+
    have fits: "getDate date - ?dim \<le> daysInMonth ?ym (Suc ?mn)"
      using over daysInMonth_bounds [of ?ym "Suc ?mn"] by linarith
    have eq: "setMonth date m =
        \<lparr>getFullYear = ?ym, getMonth = Suc ?mn, getDate = getDate date - ?dim\<rparr>"
      using False not_dec by (simp add: setMonth_def Let_def)
    have "int (getDate date - ?dim) = int (getDate date) - int ?dim"
      using False by simp
    then show ?thesis
      using next_month over fits
      by (simp add: eq calendarDate_def dayNumber_def daysBeforeMonth_Suc)
  qed
qed

text \<open>
  The forecast has twelve points and every point carries the two figures it was given.
  While the day of the month is at most 28, point \<open>i\<close> is labelled with the month \<open>i\<close>
  months after the current one.
\<close>

lemma monthlyForecast_flat:
  "length (monthlyForecast now a b) = 12 \<and>
   (\<forall>p \<in> set (monthlyForecast now a b). fixedCosts p = a \<and> availableAfterFixed p = b)"
  by (auto simp: monthlyForecast_def Let_def)

lemma monthlyForecast_label_short_day:
  assumes "getDate now \<le> 28" and "i < 12"
  shows "label (monthlyForecast now a b ! i) =
           (getFullYear now + int ((getMonth now + i) div 12), (getMonth now + i) mod 12)"
  using assms by (simp add: monthlyForecast_def setMonth_def daysInMonth_def Let_def)

text \<open>
  C6. On 31 January 2025 the twelve labels are not twelve consecutive months: February,
  April, June, September and November are missing, and March, May, July, October and
  December stand twice, since \<^verbatim>\<open>setMonth\<close> keeps the day of the month and day 31 of
  a shorter month is a day of the month after it.
\<close>

theorem monthlyForecast_end_of_january:
  "map label (monthlyForecast \<lparr>getFullYear = 2025, getMonth = 0, getDate = 31\<rparr> a b) =
     [(2025, 0), (2025, 2), (2025, 2), (2025, 4), (2025, 4), (2025, 6),
      (2025, 6), (2025, 7), (2025, 9), (2025, 9), (2025, 11), (2025, 11)]"
  by (simp add: monthlyForecast_def setMonth_def daysInMonth_def leapYear_def Let_def upt_rec)

subsection \<open>C7: the resolved income\<close>

text \<open>
  C7. The resolved income is the payload's \<^verbatim>\<open>activeMonthlyNetIncome\<close> when that is a
  number; otherwise the payload's \<^verbatim>\<open>monthlyNetIncome\<close> when that is a number;
  otherwise null. It is defined for every payload and is always a number or null. A null
  income is not read as zero: with categories present, the free-after-fixed figure is
  then \<^verbatim>\<open>summary.freeAfterFixed ?? 0\<close>.
\<close>

theorem activeMonthlyNetIncome_fallback:
  "(typeof (activeMonthlyNetIncome_field s) = TNumber \<longrightarrow>
      activeMonthlyNetIncome s = activeMonthlyNetIncome_field s) \<and>
   (typeof (activeMonthlyNetIncome_field s) \<noteq> TNumber \<and> typeof (monthlyNetIncome s) = TNumber \<longrightarrow>
      activeMonthlyNetIncome s = monthlyNetIncome s) \<and>
   (typeof (activeMonthlyNetIncome_field s) \<noteq> TNumber \<and> typeof (monthlyNetIncome s) \<noteq> TNumber \<longrightarrow>
      activeMonthlyNetIncome s = JNull) \<and>
   (typeof (activeMonthlyNetIncome s) = TNumber \<or> activeMonthlyNetIncome s = JNull) \<and>
   (activeMonthlyNetIncome s = JNull \<and> fixedCategories s \<noteq> [] \<longrightarrow>
      visibleFreeAfterFixed js s h = nullish (freeAfterFixed s) (JNum (Fin 0)))"
  by (simp add: activeMonthlyNetIncome_def visibleFreeAfterFixed_def)

theorem activeMonthlyNetIncome_fallback_witness:
  "activeMonthlyNetIncome (summaryAB (JNum (Fin 1000)) JNull) = JNum (Fin 1000) \<and>
   typeof (activeMonthlyNetIncome_field summaryNoCategories) \<noteq> TNumber \<and>
   activeMonthlyNetIncome summaryNoCategories = JNum (Fin 900) \<and>
   typeof (monthlyNetIncome (summaryAB (JStr ''n/a'') (JNum (Fin 200)))) \<noteq> TNumber \<and>
   activeMonthlyNetIncome (summaryAB (JStr ''n/a'') (JNum (Fin 200))) = JNull \<and>
   fixedCategories (summaryAB (JStr ''n/a'') (JNum (Fin 200))) \<noteq> [] \<and>
   visibleFreeAfterFixed exampleHost (summaryAB (JStr ''n/a'') (JNum (Fin 200))) [''B'']
     = JNum (Fin 200)"
  using activeMonthlyNetIncome_fallback [of "summaryAB (JNum (Fin 1000)) JNull" exampleHost "[]"]
    activeMonthlyNetIncome_fallback [of summaryNoCategories exampleHost "[]"]
    activeMonthlyNetIncome_fallback
      [of "summaryAB (JStr ''n/a'') (JNum (Fin 200))" exampleHost "[''B'']"]
  by (simp add: summaryAB_def summaryNoCategories_def fixedCategories_def nullish_def)

section \<open>Theorems: saving the owner incomes\<close>

subsection \<open>Helper facts\<close>

lemma mapThrowing_Inl_iff:
  "(\<exists>e. mapThrowing g xs = Inl e) \<longleftrightarrow> (\<exists>x \<in> set xs. \<exists>e. g x = Inl e)"
  by (induction xs) (auto split: sum.splits)

lemma mapThrowing_Inr_map:
  assumes "\<And>x y. x \<in> set xs \<Longrightarrow> g x = Inr y \<Longrightarrow> y = h x"
    and "mapThrowing g xs = Inr ys"
  shows "ys = map h xs"
  using assms by (induction xs arbitrary: ys) (auto split: sum.splits)

lemma toOwnerProfile_Inr:
  "toOwnerProfile ws f entry = Inr p \<Longrightarrow>
     p = (case entry of (name, value) \<Rightarrow>
            \<lparr>owner_name = trim ws name, owner_monthlyNetIncome = Number f value\<rparr>)"
  by (cases entry) (simp add: toOwnerProfile_def Let_def split: if_splits)

lemma ownerPayload_Inr_map:
  assumes "ownerPayload ws f entries = Inr payload"
  shows "payload = map (\<lambda>(name, value). \<lparr>owner_name = trim ws name,
             owner_monthlyNetIncome = Number f value\<rparr>) (filteredEntries ws entries)"
  using assms unfolding ownerPayload_def
  by (rule mapThrowing_Inr_map [rotated]) (rule toOwnerProfile_Inr)

lemma toOwnerProfile_Inl_iff:
  "(\<exists>e. toOwnerProfile ws f entry = Inl e) \<longleftrightarrow>
     (case entry of (name, value) \<Rightarrow>
        \<not> isFinite (Number f value) \<or> lessThanZero (Number f value))"
  by (cases entry) (simp add: toOwnerProfile_def Let_def)

lemma ownerPayload_Inl_iff:
  "(\<exists>e. ownerPayload ws f entries = Inl e) \<longleftrightarrow>
     (\<exists>(name, value) \<in> set (filteredEntries ws entries).
        \<not> isFinite (Number f value) \<or> lessThanZero (Number f value))"
  unfolding ownerPayload_def mapThrowing_Inl_iff toOwnerProfile_Inl_iff by simp

lemma handleSaveOwners_Inl:
  "ownerPayload ws f (ownerInputs page) = Inl e \<Longrightarrow>
   handleSaveOwners ws f g api page srv =
     (page\<lparr>ownerStatus := NoStatus, ownerError := e, isSavingOwners := False\<rparr>, srv)"
  by (simp add: handleSaveOwners_def)

subsection \<open>C10: validation before the settings update\<close>

text \<open>
  C10, as stated, fails. The inputs hold one entry whose name is two spaces and whose
  value is \<open>abc\<close>: the value is not the empty string and converts to NaN, yet the
  entry is dropped by the filter on the trimmed name, nothing throws, and the settings
  update is issued, with an empty payload.
\<close>

theorem handleSaveOwners_blank_name:
  "Number readAmount (JStr ''abc'') = NaN \<and>
   JStr ''abc'' \<noteq> JStr [] \<and>
   handleSaveOwners spaceOnly readAmount (\<lambda>_. []) recordCall
       (pageWith [(''  '', JStr ''abc'')]) []
     = (\<lparr>ownerInputs = [], ownerStatus = Saved, ownerError = NoError, isSavingOwners = False\<rparr>,
        [[]])"
  by (simp add: handleSaveOwners_def ownerPayload_def filteredEntries_def trim_def spaceOnly_def
      readAmount_def recordCall_def pageWith_def refreshed_def)


text \<open>
  C10, amended. An entry is omitted from the payload when its name is blank after
  trimming or its value is the empty string (or null or undefined); the payload holds the
  other entries in their order, each with its trimmed name and its converted value. The
  save throws exactly when the value of one of these other entries converts to a number
  that is not finite or is negative; and whenever it throws, the handler ends with that
  error shown, the inputs as they were and the stored settings \<open>srv\<close> untouched,
  whatever the settings service \<open>api\<close> would have done.
\<close>

theorem handleSaveOwners_all_or_nothing:
  "(\<forall>payload. ownerPayload ws f (ownerInputs page) = Inr payload \<longrightarrow>
      payload = map (\<lambda>(name, value). \<lparr>owner_name = trim ws name,
                   owner_monthlyNetIncome = Number f value\<rparr>)
                  (filter (\<lambda>(name, value). value \<noteq> JStr [] \<and> value \<noteq> JNull \<and> value \<noteq> JUndefined)
                     (filter (\<lambda>(name, value). trim ws name \<noteq> []) (ownerInputs page)))) \<and>
   ((\<exists>(name, value) \<in> set (filteredEntries ws (ownerInputs page)).
        \<not> isFinite (Number f value) \<or> lessThanZero (Number f value))
      \<longleftrightarrow> (\<exists>e. ownerPayload ws f (ownerInputs page) = Inl e)) \<and>
   (\<forall>e. ownerPayload ws f (ownerInputs page) = Inl e \<longrightarrow>
      handleSaveOwners ws f g api page srv =
        (page\<lparr>ownerStatus := NoStatus, ownerError := e, isSavingOwners := False\<rparr>, srv))"
proof (intro conjI allI impI)
  fix payload
  assume "ownerPayload ws f (ownerInputs page) = Inr payload"
  from ownerPayload_Inr_map [OF this]
  show "payload = map (\<lambda>(name, value). \<lparr>owner_name = trim ws name,
                   owner_monthlyNetIncome = Number f value\<rparr>)
                  (filter (\<lambda>(name, value). value \<noteq> JStr [] \<and> value \<noteq> JNull \<and> value \<noteq> JUndefined)
                     (filter (\<lambda>(name, value). trim ws name \<noteq> []) (ownerInputs page)))"
    by (simp add: filteredEntries_def)
next
  show "(\<exists>(name, value) \<in> set (filteredEntries ws (ownerInputs page)).
        \<not> isFinite (Number f value) \<or> lessThanZero (Number f value))
      \<longleftrightarrow> (\<exists>e. ownerPayload ws f (ownerInputs page) = Inl e)"
    by (simp only: ownerPayload_Inl_iff)
next
  fix e
  assume "ownerPayload ws f (ownerInputs page) = Inl e"
  then show "handleSaveOwners ws f g api page srv =
        (page\<lparr>ownerStatus := NoStatus, ownerError := e, isSavingOwners := False\<rparr>, srv)"
    by (rule handleSaveOwners_Inl)
qed


theorem handleSaveOwners_all_or_nothing_witness:
  "ownerPayload spaceOnly readAmount
       [(''Ola'', JStr ''1000''), (''Kari'', JStr []), (''Per'', JStr ''-5'')]
     = Inl (InvalidAmount ''Per'') \<and>
   handleSaveOwners spaceOnly readAmount (\<lambda>_. []) recordCall
       (pageWith [(''Ola'', JStr ''1000''), (''Kari'', JStr []), (''Per'', JStr ''-5'')]) []
     = (\<lparr>ownerInputs = [(''Ola'', JStr ''1000''), (''Kari'', JStr []), (''Per'', JStr ''-5'')],
         ownerStatus = NoStatus, ownerError = InvalidAmount ''Per'', isSavingOwners = False\<rparr>,
        []) \<and>
   ownerPayload spaceOnly readAmount
       [('' Ola '', JStr ''1000''), (''Kari'', JStr []), (''Per'', JStr ''0'')]
     = Inr [\<lparr>owner_name = ''Ola'', owner_monthlyNetIncome = Fin 1000\<rparr>,
            \<lparr>owner_name = ''Per'', owner_monthlyNetIncome = Fin 0\<rparr>]"
  using handleSaveOwners_all_or_nothing [of spaceOnly readAmount
      "pageWith [(''Ola'', JStr ''1000''), (''Kari'', JStr []), (''Per'', JStr ''-5'')]"
      "\<lambda>_. []" recordCall "[]"]
    handleSaveOwners_all_or_nothing [of spaceOnly readAmount
      "pageWith [('' Ola '', JStr ''1000''), (''Kari'', JStr []), (''Per'', JStr ''0'')]"
      "\<lambda>_. []" recordCall "[]"]
  by (simp add: handleSaveOwners_def ownerPayload_def filteredEntries_def trim_def spaceOnly_def
      readAmount_def pageWith_def toOwnerProfile_def)

section \<open>Theorems: the aggregator, the binding tracker and the savings summarizer\<close>

subsection \<open>Helper facts\<close>

lemma sum_addTo: "sum_list (map snd (addTo key amount totals)) = sum_list (map snd totals) + amount"
  by (induction totals) auto

lemma keys_addTo: "fst ` set (addTo key amount totals) = insert key (fst ` set totals)"
proof (induction totals)
  case Nil
  show ?case by simp
next
  case (Cons kt totals)
  obtain k t where kt: "kt = (k, t)" by (cases kt)
  show ?case
  proof (cases "k = key")
    case True
    with kt show ?thesis by simp
  next
    case False
    with kt Cons show ?thesis by (simp add: insert_commute)
  qed
qed

lemma distinct_addTo:
  "distinct (map fst totals) \<Longrightarrow> distinct (map fst (addTo key amount totals))"
proof (induction totals)
  case Nil
  then show ?case by simp
next
  case (Cons kt totals)
  obtain k t where kt: "kt = (k, t)" by (cases kt)
  show ?case
  proof (cases "k = key")
    case True
    with kt Cons.prems show ?thesis by simp
  next
    case False
    with kt Cons keys_addTo [of key amount totals] show ?thesis by simp
  qed
qed

lemma totalFor_addTo:
  "totalFor (addTo key amount totals) c = totalFor totals c + (if c = key then amount else 0)"
  by (induction totals) (auto simp: totalFor_def)

lemma validAmounts_Cons:
  "validAmounts P (e # es) =
     (if P e then (case validAmount (amountPerMonth e) of None \<Rightarrow> [] | Some a \<Rightarrow> [a]) else [])
       @ validAmounts P es"
  by (simp add: validAmounts_def List.map_filter_def split: option.splits)

lemma validAmounts_Nil: "validAmounts P [] = []"
  by (simp add: validAmounts_def List.map_filter_def)

lemma aggregate_fold:
  "sum_list (map snd (fst (foldl aggregateStep acc es)))
     = sum_list (map snd (fst acc)) + sum_list (validAmounts (\<lambda>e. True) es) \<and>
   sum_list (map snd (snd (foldl aggregateStep acc es)))
     = sum_list (map snd (snd acc)) + sum_list (validAmounts (\<lambda>e. True) es) \<and>
   totalFor (fst (foldl aggregateStep acc es)) c
     = totalFor (fst acc) c + sum_list (validAmounts (\<lambda>e. categoryOf e = c) es) \<and>
   totalFor (snd (foldl aggregateStep acc es)) l
     = totalFor (snd acc) l + sum_list (validAmounts (\<lambda>e. levelOf e = l) es) \<and>
   (distinct (map fst (fst acc)) \<longrightarrow> distinct (map fst (fst (foldl aggregateStep acc es)))) \<and>
   (distinct (map fst (snd acc)) \<longrightarrow> distinct (map fst (snd (foldl aggregateStep acc es))))"
proof (induction es arbitrary: acc)
  case Nil
  then show ?case by (simp add: validAmounts_Nil)
next
  case (Cons e es)
  show ?case
  proof (cases "validAmount (amountPerMonth e)")
    case None
    then have "aggregateStep acc e = acc" by (simp add: aggregateStep_def)
    with Cons [of acc] None show ?thesis by (simp add: validAmounts_Cons)
  next
    case (Some a)
    then have step: "aggregateStep acc e
        = (addTo (categoryOf e) a (fst acc), addTo (levelOf e) a (snd acc))"
      by (simp add: aggregateStep_def)
    from Cons [of "aggregateStep acc e"] Some show ?thesis
      by (simp add: step validAmounts_Cons sum_addTo totalFor_addTo distinct_addTo)
  qed
qed

lemma toExpiration_Some_iff:
  "toExpiration now e = Some b \<longleftrightarrow>
     (\<exists>t. bindingEndDate e = EndsAt t \<and> 0 \<le> daysLeftAt now t \<and> daysLeftAt now t \<le> windowDays \<and>
          b = \<lparr>binding_id = expense_id e, binding_name = expense_name e, binding_endDate = t,
               daysLeft = daysLeftAt now t, binding_amountPerMonth = amountPerMonth e\<rparr>)"
  by (auto simp: toExpiration_def split: binding_date.splits)

lemma set_map_filter: "set (List.map_filter f xs) = {y. \<exists>x \<in> set xs. f x = Some y}"
proof (induction xs)
  case Nil
  show ?case by (simp add: List.map_filter_def)
next
  case (Cons x xs)
  then show ?case by (cases "f x") (auto simp: List.map_filter_def)
qed

lemma key_le_iff:
  "((d1 :: int, n1 :: string) \<le> (d2, n2)) \<longleftrightarrow> d1 < d2 \<or> (d1 = d2 \<and> n1 \<le> n2)"
  by auto

lemma sorted_by_key:
  "sorted_wrt (\<lambda>a b. daysLeft a < daysLeft b \<or>
                  (daysLeft a = daysLeft b \<and> binding_name a \<le> binding_name b))
     (sort_key (\<lambda>b. (daysLeft b, binding_name b)) xs)"
proof -
  have "sorted (map (\<lambda>b. (daysLeft b, binding_name b)) (sort_key (\<lambda>b. (daysLeft b, binding_name b)) xs))"
    by (rule sorted_sort_key)
  then have "sorted_wrt (\<lambda>a b. (daysLeft a, binding_name a) \<le> (daysLeft b, binding_name b))
      (sort_key (\<lambda>b. (daysLeft b, binding_name b)) xs)"
    by (simp only: sorted_map)
  then show ?thesis
    by (rule sorted_wrt_mono_rel [rotated]) (simp only: key_le_iff)
qed

subsection \<open>C5: category totals, level totals and the valid amounts\<close>

text \<open>
  C5. For every sequence of expenses, the category totals, the level totals and the valid
  monthly amounts have one and the same sum, where an amount that is negative or not
  finite is left out. No label stands twice among the category totals, nor among the
  level totals, and the total of a category \<open>c\<close> (of a level \<open>l\<close>) is the sum of the
  valid amounts of the expenses of that category (level): a valid expense counts in the
  total of its own category and of its own level, and in no other.
\<close>

theorem aggregateExpenses_sums:
  "sum_list (map snd (categoryTotals es)) = sum_list (validAmounts (\<lambda>e. True) es) \<and>
   sum_list (map snd (levelTotals es)) = sum_list (validAmounts (\<lambda>e. True) es) \<and>
   sum_list (map snd (categoryTotals es)) = sum_list (map snd (levelTotals es)) \<and>
   distinct (map fst (categoryTotals es)) \<and>
   distinct (map fst (levelTotals es)) \<and>
   totalFor (categoryTotals es) c = sum_list (validAmounts (\<lambda>e. categoryOf e = c) es) \<and>
   totalFor (levelTotals es) l = sum_list (validAmounts (\<lambda>e. levelOf e = l) es)"
  using aggregate_fold [of "([], [])" es c l]
  by (simp add: categoryTotals_def levelTotals_def aggregateExpenses_def totalFor_def)

theorem aggregateExpenses_sums_witness:
  "categoryTotals exampleExpenses = [(''Housing'', 10100), (''Uncategorized'', 400)] \<and>
   levelTotals exampleExpenses = [(''Must'', 10100), (''Nice'', 400)] \<and>
   sum_list (validAmounts (\<lambda>e. True) exampleExpenses) = 10500 \<and>
   sum_list (validAmounts (\<lambda>e. categoryOf e = ''Housing'') exampleExpenses) = 10100"
  using aggregateExpenses_sums [of exampleExpenses "''Housing''" "''Must''"]
  by (simp add: exampleExpenses_def categoryTotals_def levelTotals_def aggregateExpenses_def
      aggregateStep_def expense_def categoryOf_def levelOf_def validAmounts_def
      List.map_filter_def)

subsection \<open>C8: the savings statistics\<close>

text \<open>
  C8. For every sequence of goals: the count is the number of goals; the two totals are
  the sums of the valid saved and target amounts; the progress is 0 when there is no goal
  or the total target is 0, and otherwise the integer \<open>round (100 * saved / target)\<close>,
  which is not clamped; it is always a finite number. The witness has the two goals of
  section 8 (80 of 170, progress 47), no goal (progress 0), an over-saved goal (progress
  150) and a goal with target 0 (progress 0).
\<close>

theorem summarizeSavingsGoals_stats:
  "goalCount (summarizeSavingsGoals goals) = length goals \<and>
   totalSaved (summarizeSavingsGoals goals)
     = sum_list (List.map_filter (\<lambda>g. validAmount (savedAmount g)) goals) \<and>
   totalTarget (summarizeSavingsGoals goals)
     = sum_list (List.map_filter (\<lambda>g. validAmount (targetAmount g)) goals) \<and>
   (goalCount (summarizeSavingsGoals goals) = 0 \<or> totalTarget (summarizeSavingsGoals goals) = 0
      \<longrightarrow> avgProgress (summarizeSavingsGoals goals) = Fin 0) \<and>
   (goalCount (summarizeSavingsGoals goals) \<noteq> 0 \<and> totalTarget (summarizeSavingsGoals goals) \<noteq> 0
      \<longrightarrow> avgProgress (summarizeSavingsGoals goals)
            = Fin (of_int (round (100 * totalSaved (summarizeSavingsGoals goals)
                                    / totalTarget (summarizeSavingsGoals goals))))) \<and>
   isFinite (avgProgress (summarizeSavingsGoals goals))"
  by (simp add: summarizeSavingsGoals_def Let_def jsdiv_def round_def)

theorem summarizeSavingsGoals_stats_witness:
  "summarizeSavingsGoals [goal 50 100, goal 30 70]
     = \<lparr>goalCount = 2, totalSaved = 80, totalTarget = 170, avgProgress = Fin 47\<rparr> \<and>
   summarizeSavingsGoals []
     = \<lparr>goalCount = 0, totalSaved = 0, totalTarget = 0, avgProgress = Fin 0\<rparr> \<and>
   summarizeSavingsGoals [goal 150 100]
     = \<lparr>goalCount = 1, totalSaved = 150, totalTarget = 100, avgProgress = Fin 150\<rparr> \<and>
   summarizeSavingsGoals [goal 10 0]
     = \<lparr>goalCount = 1, totalSaved = 10, totalTarget = 0, avgProgress = Fin 0\<rparr>"
  using summarizeSavingsGoals_stats [of "[goal 50 100, goal 30 70]"]
    summarizeSavingsGoals_stats [of "[]"]
    summarizeSavingsGoals_stats [of "[goal 150 100]"]
    summarizeSavingsGoals_stats [of "[goal 10 0]"]
  by (simp add: summarizeSavingsGoals_def Let_def goal_def List.map_filter_def jsdiv_def
      floor_eq_iff)

subsection \<open>C9: the binding expirations\<close>

text \<open>
  C9. For every sequence of expenses and every instant \<open>now\<close>, the result holds, as often
  as they occur, exactly the records of the expenses that the tracker keeps: a record
  is in the result if and only if it is made from an expense whose end date parses and
  whose \<open>daysLeft\<close>, the floor of the difference in days, lies between 0 and 90; an
  expense without a date or with a date that does not parse gives no record. The result
  is in ascending order of \<open>daysLeft\<close>, and of name where \<open>daysLeft\<close> is the same. In
  the witness an expense 45 days out is kept and one 120 days out is not, and
  \<open>Beta\<close> stands before \<open>alpha\<close>: the order of names is case-sensitive.
\<close>

theorem bindingExpirations_window_sorted:
  "mset (bindingExpirations now es) = mset (List.map_filter (toExpiration now) es) \<and>
   (\<forall>b. b \<in> set (bindingExpirations now es) \<longleftrightarrow>
      (\<exists>e \<in> set es. \<exists>t. bindingEndDate e = EndsAt t \<and>
          0 \<le> (t - now) div 86400000 \<and> (t - now) div 86400000 \<le> 90 \<and>
          b = \<lparr>binding_id = expense_id e, binding_name = expense_name e, binding_endDate = t,
               daysLeft = (t - now) div 86400000, binding_amountPerMonth = amountPerMonth e\<rparr>)) \<and>
   (\<forall>e \<in> set es. bindingEndDate e = NoDate \<or> bindingEndDate e = Unparseable \<longrightarrow>
      toExpiration now e = None) \<and>
   sorted_wrt (\<lambda>a b. daysLeft a < daysLeft b \<or>
                  (daysLeft a = daysLeft b \<and> binding_name a \<le> binding_name b))
     (bindingExpirations now es)"
proof (intro conjI)
  show "mset (bindingExpirations now es) = mset (List.map_filter (toExpiration now) es)"
    by (simp add: bindingExpirations_def)
  show "\<forall>b. b \<in> set (bindingExpirations now es) \<longleftrightarrow>
      (\<exists>e \<in> set es. \<exists>t. bindingEndDate e = EndsAt t \<and>
          0 \<le> (t - now) div 86400000 \<and> (t - now) div 86400000 \<le> 90 \<and>
          b = \<lparr>binding_id = expense_id e, binding_name = expense_name e, binding_endDate = t,
               daysLeft = (t - now) div 86400000, binding_amountPerMonth = amountPerMonth e\<rparr>)"
    by (simp add: bindingExpirations_def set_map_filter toExpiration_Some_iff daysLeftAt_def
        windowDays_def msPerDay_def)
  show "\<forall>e \<in> set es. bindingEndDate e = NoDate \<or> bindingEndDate e = Unparseable \<longrightarrow>
      toExpiration now e = None"
    by (auto simp: toExpiration_def)
  show "sorted_wrt (\<lambda>a b. daysLeft a < daysLeft b \<or>
                  (daysLeft a = daysLeft b \<and> binding_name a \<le> binding_name b))
     (bindingExpirations now es)"
    unfolding bindingExpirations_def by (rule sorted_by_key)
qed

theorem bindingExpirations_window_sorted_witness:
  "expense ''alpha'' ''c'' ''l'' (Fin 10) (EndsAt (1000 + 45 * 86400000)) \<in> set exampleBindings \<and>
   map (\<lambda>b. (daysLeft b, binding_name b)) (bindingExpirations 1000 exampleBindings)
     = [(0, ''Today''), (45, ''Beta''), (45, ''alpha''), (90, ''Edge'')] \<and>
   ''Beta'' \<le> ''alpha'' \<and> \<not> ''alpha'' \<le> ''Beta''"
  using bindingExpirations_window_sorted [of 1000 exampleBindings]
  by (simp add: exampleBindings_def bindingExpirations_def List.map_filter_def toExpiration_def
      expense_def daysLeftAt_def windowDays_def msPerDay_def)

end
